theory Spec2Isabelle
  imports Main "HOL-Library.Sublist" "HOL-Library.Word"
begin

section \<open>The Deno plugin for esbuild: data model\<close>

text \<open>
  The plugin (\<^verbatim>\<open>denoPlugin\<close>) registers one resolve hook and one load hook with esbuild and
  delegates to the loader of \<^verbatim>\<open>@deno/loader\<close>. A JavaScript string is a sequence of code
  units; it is represented here as a HOL \<^typ>\<open>string\<close>, one \<^typ>\<open>char\<close> per code unit, so the
  development covers the strings whose code units lie below 256. The bytes of a
  \<^verbatim>\<open>Uint8Array\<close> are 8-bit words.
\<close>

type_synonym bytes = "8 word list"

text \<open>\<^verbatim>\<open>String.prototype.startsWith\<close> and \<^verbatim>\<open>endsWith\<close>, receiver first.\<close>

definition startsWith :: "string \<Rightarrow> string \<Rightarrow> bool" where
  "startsWith s p = prefix p s"

definition endsWith :: "string \<Rightarrow> string \<Rightarrow> bool" where
  "endsWith s p = suffix p s"

text \<open>
  The enumerations of \<^verbatim>\<open>@deno/loader\<close> (\<^verbatim>\<open>mod.ts\<close>), in declaration order.
  \<^verbatim>\<open>RequestedModuleType.Json\<close> is \<open>RJson\<close> here, since \<open>Json\<close> is the media type.
\<close>

datatype MediaType =
    JavaScript | Jsx | Mjs | Cjs | TypeScript | Mts | Cts | Dts | Dmts | Dcts | Tsx
  | Css | Json | Html | Sql | Wasm | SourceMap | Unknown

datatype ResolutionMode = Import | Require

datatype RequestedModuleType = Default | RJson | Text | Bytes

text \<open>
  esbuild's \<^verbatim>\<open>Loader\<close> union of string literals; \<open>L_default\<close> is \<^verbatim>\<open>"default"\<close>,
  \<open>L_js\<close> is \<^verbatim>\<open>"js"\<close>, and so on.
\<close>

datatype Loader =
    L_base64 | L_binary | L_copy | L_css | L_dataurl | L_default | L_empty | L_file
  | L_js | L_json | L_jsx | L_local_css | L_text | L_ts | L_tsx

section \<open>Media type to loader\<close>

text \<open>
  \<^verbatim>\<open>mediaToLoader\<close>: the \<^verbatim>\<open>switch\<close> names sixteen of the eighteen media types; \<open>Cts\<close> and
  \<open>Dts\<close> have no \<^verbatim>\<open>case\<close> and reach the \<^verbatim>\<open>default:\<close> label.
\<close>

fun mediaToLoader :: "MediaType \<Rightarrow> Loader" where
  "mediaToLoader Jsx = L_jsx"
| "mediaToLoader JavaScript = L_js"
| "mediaToLoader Mjs = L_js"
| "mediaToLoader Cjs = L_js"
| "mediaToLoader TypeScript = L_ts"
| "mediaToLoader Mts = L_ts"
| "mediaToLoader Dmts = L_ts"
| "mediaToLoader Dcts = L_ts"
| "mediaToLoader Tsx = L_tsx"
| "mediaToLoader Css = L_css"
| "mediaToLoader Json = L_json"
| "mediaToLoader Html = L_default"
| "mediaToLoader Sql = L_default"
| "mediaToLoader Wasm = L_binary"
| "mediaToLoader SourceMap = L_json"
| "mediaToLoader Unknown = L_default"
| "mediaToLoader _ = L_default"

section \<open>Requested module type\<close>

text \<open>
  \<^verbatim>\<open>getModuleType(file, withArgs)\<close>: \<open>withArgs\<close> is a \<^verbatim>\<open>Record<string, string>\<close>, a map.
  \<^verbatim>\<open>withArgs.type\<close> is \<^verbatim>\<open>undefined\<close> when the key is absent, and the \<^verbatim>\<open>default:\<close>
  label of the \<^verbatim>\<open>switch\<close> takes that case together with every value that is none of
  \<^verbatim>\<open>"text"\<close>, \<^verbatim>\<open>"bytes"\<close>, \<^verbatim>\<open>"json"\<close>.
\<close>

definition getModuleType :: "string \<Rightarrow> (string \<rightharpoonup> string) \<Rightarrow> RequestedModuleType" where
  "getModuleType file withArgs =
     (if withArgs ''type'' = Some ''text'' then Text
      else if withArgs ''type'' = Some ''bytes'' then Bytes
      else if withArgs ''type'' = Some ''json'' then RJson
      else if endsWith file ''.json'' then RJson
      else Default)"

section \<open>Regular expressions of the host\<close>

text \<open>
  The plugin contains two regular-expression literals and builds a third kind at run
  time. The host's engine is modelled for the fragment these use: a pattern is a list of
  alternatives tried left to right, an alternative a sequence of pieces, matched by
  backtracking with the priorities of ECMAScript (a greedy quantifier prefers one more
  repetition, a lazy one prefers to stop). No flag is set in any of them, so \<^verbatim>\<open>.\<close> excludes
  the line terminators and \<^verbatim>\<open>^\<close>, \<^verbatim>\<open>$\<close> match at the ends of the input only.
\<close>

abbreviation backslash :: char where "backslash \<equiv> CHR 0x5C"
abbreviation dquote :: char where "dquote \<equiv> CHR 0x22"
abbreviation squote :: char where "squote \<equiv> CHR 0x27"

datatype class_item = CChar char | CWord

datatype atom = Dot | Lit char | Class bool "class_item list"

datatype piece =
    Bol
  | Eol
  | One atom
  | Rep atom nat bool
  | GroupOpen nat
  | GroupClose nat

type_synonym regex = "piece list list"

text \<open>
  The line terminators below 256 are line feed and carriage return; the other two of
  ECMAScript, U+2028 and U+2029, are not code units of the strings covered here.
\<close>

definition is_line_terminator :: "char \<Rightarrow> bool" where
  "is_line_terminator c = (c = CHR 0x0A \<or> c = CHR 0x0D)"

definition is_word_char :: "char \<Rightarrow> bool" where
  "is_word_char c =
     (let n = (of_char c :: nat)
      in (97 \<le> n \<and> n \<le> 122) \<or> (65 \<le> n \<and> n \<le> 90) \<or> (48 \<le> n \<and> n \<le> 57) \<or> n = 95)"

fun item_matches :: "class_item \<Rightarrow> char \<Rightarrow> bool" where
  "item_matches (CChar d) c = (c = d)"
| "item_matches CWord c = is_word_char c"

fun atom_matches :: "atom \<Rightarrow> char \<Rightarrow> bool" where
  "atom_matches Dot c = (\<not> is_line_terminator c)"
| "atom_matches (Lit d) c = (c = d)"
| "atom_matches (Class negated items) c = (list_ex (\<lambda>i. item_matches i c) items \<noteq> negated)"

text \<open>
  The state of one match attempt: the index of the current position in the input, the
  input that remained where each group was opened, and the text of each closed group
  (a group that took no part in the match stays \<open>None\<close>, JavaScript's \<^verbatim>\<open>undefined\<close>).
\<close>

record mstate =
  pos :: nat
  opened :: "nat \<rightharpoonup> string"
  groups :: "nat \<rightharpoonup> string"

definition advance :: "mstate \<Rightarrow> mstate" where
  "advance st = st\<lparr>pos := Suc (pos st)\<rparr>"

definition close_group :: "nat \<Rightarrow> string \<Rightarrow> mstate \<Rightarrow> mstate" where
  "close_group k s st =
     (case opened st k of
        None \<Rightarrow> st
      | Some s0 \<Rightarrow> st\<lparr>groups := (groups st)(k \<mapsto> take (length s0 - length s) s0)\<rparr>)"

text \<open>
  \<open>run ps s st\<close> matches the pieces \<open>ps\<close> against the remaining input \<open>s\<close> and returns the
  final state and the input left after the match, or \<open>None\<close> when every way fails.
\<close>

fun run :: "piece list \<Rightarrow> string \<Rightarrow> mstate \<Rightarrow> (mstate \<times> string) option" where
  "run [] s st = Some (st, s)"
| "run (Bol # ps) s st = (if pos st = 0 then run ps s st else None)"
| "run (Eol # ps) s st = (if s = [] then run ps s st else None)"
| "run (One a # ps) s st =
     (case s of
        [] \<Rightarrow> None
      | c # cs \<Rightarrow> if atom_matches a c then run ps cs (advance st) else None)"
| "run (Rep a (Suc n) g # ps) s st =
     (case s of
        [] \<Rightarrow> None
      | c # cs \<Rightarrow> if atom_matches a c then run (Rep a n g # ps) cs (advance st) else None)"
| "run (Rep a 0 g # ps) s st =
     (let more = (case s of
                    [] \<Rightarrow> None
                  | c # cs \<Rightarrow>
                      if atom_matches a c then run (Rep a 0 g # ps) cs (advance st) else None);
          stop = run ps s st
      in if g then (case more of Some r \<Rightarrow> Some r | None \<Rightarrow> stop)
         else (case stop of Some r \<Rightarrow> Some r | None \<Rightarrow> more))"
| "run (GroupOpen k # ps) s st = run ps s (st\<lparr>opened := (opened st)(k \<mapsto> s)\<rparr>)"
| "run (GroupClose k # ps) s st = run ps s (close_group k s st)"

definition initial :: "nat \<Rightarrow> mstate" where
  "initial i = \<lparr>pos = i, opened = Map.empty, groups = Map.empty\<rparr>"

text \<open>One attempt at index \<open>i\<close>: the alternatives in order.\<close>

fun try_alts :: "regex \<Rightarrow> string \<Rightarrow> nat \<Rightarrow> (mstate \<times> string) option" where
  "try_alts [] s i = None"
| "try_alts (a # as) s i =
     (case run a s (initial i) of Some r \<Rightarrow> Some r | None \<Rightarrow> try_alts as s i)"

text \<open>
  \<^verbatim>\<open>RegExp.prototype.test\<close> of a pattern without the \<^verbatim>\<open>g\<close> and \<^verbatim>\<open>y\<close> flags: an attempt at
  every index from 0 to the length of the input.
\<close>

fun search :: "regex \<Rightarrow> string \<Rightarrow> nat \<Rightarrow> bool" where
  "search re [] i = (try_alts re [] i \<noteq> None)"
| "search re (c # cs) i = (try_alts re (c # cs) i \<noteq> None \<or> search re cs (Suc i))"

definition test :: "regex \<Rightarrow> string \<Rightarrow> bool" where
  "test re s = search re s 0"

text \<open>
  A thrown value is an instance of \<^verbatim>\<open>Error\<close> with its message, or any other value. A
  function that may throw returns \<open>Inl\<close> of what it throws; a hook returns \<open>Inr None\<close> for
  \<^verbatim>\<open>null\<close> and \<open>Inr (Some r)\<close> for a result object.
\<close>

datatype thrown = ErrorInstance string | OtherValue string

text \<open>
  \<^verbatim>\<open>String.prototype.replaceAll\<close> with a global pattern and a replacer function. The
  replacer receives the matched text and the groups 1 and 2; what it returns is converted
  to a string, so \<^verbatim>\<open>undefined\<close> (\<open>None\<close>) becomes the text \<^verbatim>\<open>undefined\<close>. The replacer is
  called for the matches from left to right, and what it throws ends the call. After an
  empty match the scan copies one code unit and goes on behind it.
\<close>

definition ToString :: "string option \<Rightarrow> string" where
  "ToString v = (case v of None \<Rightarrow> ''undefined'' | Some s \<Rightarrow> s)"

function replaceAll_from ::
  "regex \<Rightarrow> (string \<Rightarrow> string option \<Rightarrow> string option \<Rightarrow> thrown + string option) \<Rightarrow>
   string \<Rightarrow> nat \<Rightarrow> thrown + string"
where
  "replaceAll_from re f s i =
     (case try_alts re s i of
        None \<Rightarrow>
          (case s of
             [] \<Rightarrow> Inr []
           | c # cs \<Rightarrow> map_sum id ((#) c) (replaceAll_from re f cs (Suc i)))
      | Some (st, rest) \<Rightarrow>
          (case f (take (length s - length rest) s) (groups st 1) (groups st 2) of
             Inl err \<Rightarrow> Inl err
           | Inr v \<Rightarrow>
               map_sum id ((@) (ToString v))
                 (if length rest < length s then replaceAll_from re f rest (pos st)
                  else (case s of
                          [] \<Rightarrow> Inr []
                        | c # cs \<Rightarrow> map_sum id ((#) c) (replaceAll_from re f cs (Suc i))))))"
  by pat_completeness auto
termination
  by (relation "measure (\<lambda>(re, f, s, i). length s)") auto

declare replaceAll_from.simps [simp del]

definition replaceAll ::
  "string \<Rightarrow> regex \<Rightarrow> (string \<Rightarrow> string option \<Rightarrow> string option \<Rightarrow> thrown + string option) \<Rightarrow>
   thrown + string"
where
  "replaceAll s re f = replaceAll_from re f s 0"

text \<open>
  \<^verbatim>\<open>new RegExp(source)\<close> for the sources the plugin builds. The parser reads the anchors, the
  dot, a plain character, an identity escape (a backslash before a syntax character,
  \<^verbatim>\<open>-\<close> or \<^verbatim>\<open>/\<close>) and the quantifiers \<^verbatim>\<open>*\<close> and \<^verbatim>\<open>+\<close> with their lazy forms. It returns \<open>None\<close>
  on everything else: a quantifier with nothing to repeat, a dangling backslash (both a
  \<^verbatim>\<open>SyntaxError\<close> of the host) and the syntax outside this fragment (groups, classes,
  alternation, other escapes and quantifiers).
\<close>

definition syntax_chars :: string where
  "syntax_chars = ''^$.*+?()[]{}|'' @ [backslash]"

definition quantified :: "atom \<Rightarrow> string \<Rightarrow> piece \<times> string" where
  "quantified a cs =
     (case cs of
        [] \<Rightarrow> (One a, cs)
      | q # r \<Rightarrow>
          if q = CHR ''*'' \<or> q = CHR ''+'' then
            (case r of
               [] \<Rightarrow> (Rep a (if q = CHR ''+'' then 1 else 0) True, r)
             | l # r' \<Rightarrow>
                 if l = CHR ''?'' then (Rep a (if q = CHR ''+'' then 1 else 0) False, r')
                 else (Rep a (if q = CHR ''+'' then 1 else 0) True, r))
          else (One a, cs))"

lemma quantified_length: "length (snd (quantified a cs)) \<le> length cs"
  by (auto simp: quantified_def split: list.splits)

function parse_pieces :: "string \<Rightarrow> piece list option" where
  "parse_pieces [] = Some []"
| "parse_pieces (c # cs) =
     (if c = CHR ''^'' then map_option ((#) Bol) (parse_pieces cs)
      else if c = CHR ''$'' then map_option ((#) Eol) (parse_pieces cs)
      else if c = backslash then
        (case cs of
           [] \<Rightarrow> None
         | d # ds \<Rightarrow>
             if d \<in> set syntax_chars \<or> d = CHR ''-'' \<or> d = CHR ''/'' then
               map_option ((#) (fst (quantified (Lit d) ds)))
                 (parse_pieces (snd (quantified (Lit d) ds)))
             else None)
      else if c = CHR ''.'' then
        map_option ((#) (fst (quantified Dot cs))) (parse_pieces (snd (quantified Dot cs)))
      else if c \<in> set syntax_chars then None
      else
        map_option ((#) (fst (quantified (Lit c) cs)))
          (parse_pieces (snd (quantified (Lit c) cs))))"
  by pat_completeness auto
termination
  by (relation "measure length")
    (auto simp: less_Suc_eq_le quantified_length
      intro: order_trans [OF quantified_length])

definition RegExp_new :: "string \<Rightarrow> regex option" where
  "RegExp_new source = map_option (\<lambda>ps. [ps]) (parse_pieces source)"

section \<open>External patterns\<close>

text \<open>
  \<^verbatim>\<open>externalToRegex\<close>: the first \<^verbatim>\<open>replace\<close> puts a backslash before every character of the
  class \<^verbatim>\<open>[-/\\^$+?.()|[\]{}]\<close>, the second turns every \<^verbatim>\<open>*\<close> into \<^verbatim>\<open>.*\<close>, and the result
  stands between \<^verbatim>\<open>^\<close> and \<^verbatim>\<open>$\<close>. The value is \<open>None\<close> where the constructor would throw.
\<close>

definition escaped_chars :: string where
  "escaped_chars = ''-/'' @ [backslash] @ ''^$+?.()|[]{}''"

definition escape_meta :: "string \<Rightarrow> string" where
  "escape_meta s = concat (map (\<lambda>c. if c \<in> set escaped_chars then [backslash, c] else [c]) s)"

definition replace_stars :: "string \<Rightarrow> string" where
  "replace_stars s = concat (map (\<lambda>c. if c = CHR ''*'' then ''.*'' else [c]) s)"

definition regex_source :: "string \<Rightarrow> string" where
  "regex_source external = ''^'' @ replace_stars (escape_meta external) @ ''$''"

definition externalToRegex :: "string \<Rightarrow> regex option" where
  "externalToRegex external = RegExp_new (regex_source external)"

section \<open>Inlining of public environment variables\<close>

text \<open>
  \<^verbatim>\<open>JSON.stringify\<close> of a string or \<^verbatim>\<open>undefined\<close>: \<^verbatim>\<open>undefined\<close> stays \<^verbatim>\<open>undefined\<close>; a string is
  put between double quotes with the escapes of \<^verbatim>\<open>QuoteJSONString\<close>.
\<close>

definition hex_digit :: "nat \<Rightarrow> char" where
  "hex_digit n = ''0123456789abcdef'' ! (n mod 16)"

definition json_escape :: "char \<Rightarrow> string" where
  "json_escape c =
     (if c = CHR 0x08 then [backslash, CHR ''b'']
      else if c = CHR 0x09 then [backslash, CHR ''t'']
      else if c = CHR 0x0A then [backslash, CHR ''n'']
      else if c = CHR 0x0C then [backslash, CHR ''f'']
      else if c = CHR 0x0D then [backslash, CHR ''r'']
      else if c = dquote then [backslash, dquote]
      else if c = backslash then [backslash, backslash]
      else if (of_char c :: nat) < 32 then
        [backslash, CHR ''u'', CHR ''0'', CHR ''0'',
         hex_digit ((of_char c :: nat) div 16), hex_digit (of_char c :: nat)]
      else [c])"

definition QuoteJSONString :: "string \<Rightarrow> string" where
  "QuoteJSONString v = [dquote] @ concat (map json_escape v) @ [dquote]"

definition JSON_stringify :: "string option \<Rightarrow> string option" where
  "JSON_stringify v = map_option QuoteJSONString v"

text \<open>
  The pattern of the load hook,
  \<^verbatim>\<open>/Deno\.env\.get\(["']([^)]+)['"]\)|process\.env\.([\w_-]+)/g\<close>.
\<close>

definition lits :: "string \<Rightarrow> piece list" where
  "lits s = map (\<lambda>c. One (Lit c)) s"

definition envReg :: regex where
  "envReg =
     [ lits ''Deno.env.get('' @
       [ One (Class False [CChar dquote, CChar squote]),
         GroupOpen 1, Rep (Class True [CChar (CHR '')'')]) 1 True, GroupClose 1,
         One (Class False [CChar squote, CChar dquote]),
         One (Lit (CHR '')'')) ],
       lits ''process.env.'' @
       [ GroupOpen 2, Rep (Class False [CWord, CChar (CHR ''_''), CChar (CHR ''-'')]) 1 True,
         GroupClose 2 ] ]"

text \<open>
  The replacer of the load hook. \<open>env\<close> is \<^verbatim>\<open>Deno.env.get\<close>: it returns \<open>Inr None\<close>
  (\<^verbatim>\<open>undefined\<close>) for a variable that is not set, and it may throw, as the host's getter does
  for a key with \<^verbatim>\<open>=\<close> or a NUL character and without the permission to read the
  environment. What it throws leaves the replacer.
\<close>

definition replacer ::
  "string \<Rightarrow> (string \<Rightarrow> thrown + string option) \<Rightarrow> string \<Rightarrow> string option \<Rightarrow> string option \<Rightarrow>
   thrown + string option"
where
  "replacer envPrefix env m name processName =
     (if name \<noteq> None \<and> startsWith (the name) envPrefix then
        map_sum id JSON_stringify (env (the name))
      else if processName \<noteq> None \<and> startsWith (the processName) envPrefix then
        map_sum id JSON_stringify (env (the processName))
      else Inr (Some m))"

definition inlineEnv :: "string \<Rightarrow> (string \<Rightarrow> thrown + string option) \<Rightarrow> string \<Rightarrow> thrown + string" where
  "inlineEnv envPrefix env code = replaceAll code envReg (replacer envPrefix env)"

section \<open>The hooks\<close>

text \<open>
  What the plugin takes from its host and from \<^verbatim>\<open>@std/path\<close>, none of it code of the
  repository: \<^verbatim>\<open>isBuiltin\<close> of \<^verbatim>\<open>node:module\<close>, \<^verbatim>\<open>path.fromFileUrl\<close>, \<^verbatim>\<open>path.toFileUrl\<close>
  followed by \<^verbatim>\<open>toString\<close>, the decoding of a \<^verbatim>\<open>TextDecoder\<close> and \<^verbatim>\<open>Deno.env.get\<close>. The two
  conversions and the getter may throw.
\<close>

record host =
  isBuiltin :: "string \<Rightarrow> bool"
  fromFileUrl :: "string \<Rightarrow> thrown + string"
  toFileUrl :: "string \<Rightarrow> thrown + string"
  decode :: "bytes \<Rightarrow> string"
  env_get :: "string \<Rightarrow> thrown + string option"

text \<open>
  The loader of \<^verbatim>\<open>@deno/loader\<close>, an opaque engine with a state \<open>'s\<close> of its own: a call
  takes the state and returns the outcome (\<open>Inl\<close> for a rejected promise) with the new
  state.
\<close>

datatype LoadResponse =
    Module (specifier: string) (mediaType: MediaType) (code: bytes)
  | External (specifier: string)

record 's loader =
  resolve :: "'s \<Rightarrow> string \<Rightarrow> string option \<Rightarrow> ResolutionMode \<Rightarrow> (thrown + string) \<times> 's"
  load :: "'s \<Rightarrow> string \<Rightarrow> RequestedModuleType \<Rightarrow> (thrown + LoadResponse) \<times> 's"

text \<open>
  The fields of esbuild's argument and result objects that the hooks read and write. The
  field \<^verbatim>\<open>path\<close> of a resolve result is \<open>result_path\<close> and that of the load arguments is
  \<open>load_path\<close>; \<open>with_attrs\<close> is \<^verbatim>\<open>with\<close>, the import attributes. A field that an object
  literal leaves out is \<open>None\<close>.
\<close>

datatype ImportKind =
    entry_point | import_statement | require_call | dynamic_import | require_resolve
  | import_rule | composes_from | url_token

record OnResolveArgs =
  path :: string
  importer :: string
  kind :: ImportKind

record OnResolveResult =
  result_path :: string
  external :: "bool option"
  namespace :: "string option"

record OnLoadArgs =
  load_path :: string
  with_attrs :: "string \<rightharpoonup> string"

datatype contents = Str string | Buf bytes

record OnLoadResult =
  contents :: contents
  loader :: Loader

record DenoPluginOptions =
  debug :: "bool option"
  configPath :: "string option"
  noTranspile :: "bool option"
  preserveJsx :: "bool option"
  publicEnvVarPrefix :: "string option"

text \<open>The pattern of the \<^verbatim>\<open>catch\<close> block, \<^verbatim>\<open>/Relative import path ".*?" not prefixed with/\<close>.\<close>

definition couldNotResolveReg :: regex where
  "couldNotResolveReg =
     [ lits ''Relative import path '' @
       [One (Lit dquote), Rep Dot 0 False, One (Lit dquote)] @
       lits '' not prefixed with'' ]"

text \<open>The \<^verbatim>\<open>catch\<close> block of the resolve hook.\<close>

definition catch_resolve :: "thrown \<Rightarrow> thrown + OnResolveResult option" where
  "catch_resolve err =
     (case err of
        ErrorInstance message \<Rightarrow>
          if test couldNotResolveReg message then Inr None else Inl err
      | OtherValue v \<Rightarrow> Inl err)"

text \<open>The chain of \<^verbatim>\<open>startsWith\<close> tests that sets \<^verbatim>\<open>namespace\<close> in the resolve hook.\<close>

definition namespace_of :: "string \<Rightarrow> string option" where
  "namespace_of res =
     (if startsWith res ''file:'' then Some ''file''
      else if startsWith res ''http:'' then Some ''http''
      else if startsWith res ''https:'' then Some ''https''
      else if startsWith res ''npm:'' then Some ''npm''
      else if startsWith res ''jsr:'' then Some ''jsr''
      else None)"

text \<open>The \<^verbatim>\<open>resolved\<close> path of the resolve hook.\<close>

definition resolved_path :: "host \<Rightarrow> string \<Rightarrow> thrown + string" where
  "resolved_path h res = (if startsWith res ''file:'' then fromFileUrl h res else Inr res)"

text \<open>The \<^verbatim>\<open>kind\<close> handed to the loader.\<close>

definition resolution_mode :: "ImportKind \<Rightarrow> ResolutionMode" where
  "resolution_mode k = (if k = require_call \<or> k = require_resolve then Require else Import)"

text \<open>
  The resolve hook. \<open>externals\<close> are the compiled patterns of \<^verbatim>\<open>initialOptions.external\<close>. The
  conversion of a file URL stands inside the \<^verbatim>\<open>try\<close> block, so what it throws reaches the
  same \<^verbatim>\<open>catch\<close> as a rejection of the loader.
\<close>

definition onResolve ::
  "host \<Rightarrow> regex list \<Rightarrow> 's loader \<Rightarrow> OnResolveArgs \<Rightarrow> 's \<Rightarrow> (thrown + OnResolveResult option) \<times> 's"
where
  "onResolve h externals ld args s =
     (if isBuiltin h (path args) \<or> list_ex (\<lambda>reg. test reg (path args)) externals then
        (Inr (Some \<lparr>result_path = path args, external = Some True, namespace = None\<rparr>), s)
      else
        (case resolve ld s (path args) (Some (importer args)) (resolution_mode (kind args)) of
           (Inl err, s') \<Rightarrow> (catch_resolve err, s')
         | (Inr res, s') \<Rightarrow>
             (case resolved_path h res of
                Inl err \<Rightarrow> (catch_resolve err, s')
              | Inr resolved \<Rightarrow>
                  (Inr (Some \<lparr>result_path = resolved, external = None,
                              namespace = namespace_of res\<rparr>), s'))))"

text \<open>The \<^verbatim>\<open>url\<close> of the load hook, the argument of \<^verbatim>\<open>loader.load\<close>.\<close>

definition load_url :: "host \<Rightarrow> string \<Rightarrow> thrown + string" where
  "load_url h p =
     (if startsWith p ''http:'' \<or> startsWith p ''https:'' \<or> startsWith p ''npm:'' \<or>
         startsWith p ''jsr:''
      then Inr p else toFileUrl h p)"

definition onLoad ::
  "DenoPluginOptions \<Rightarrow> host \<Rightarrow> 's loader \<Rightarrow> OnLoadArgs \<Rightarrow> 's \<Rightarrow> (thrown + OnLoadResult option) \<times> 's"
where
  "onLoad options h ld args s =
     (case load_url h (load_path args) of
        Inl err \<Rightarrow> (Inl err, s)
      | Inr url \<Rightarrow>
          (let moduleType = getModuleType (load_path args) (with_attrs args)
           in (case load ld s url moduleType of
                 (Inl err, s') \<Rightarrow> (Inl err, s')
               | (Inr (External spec), s') \<Rightarrow> (Inr None, s')
               | (Inr (Module spec mt bs), s') \<Rightarrow>
                   (let esbuildLoader = mediaToLoader mt
                    in (case publicEnvVarPrefix options of
                          None \<Rightarrow> (Inr (Some \<lparr>contents = Buf bs, loader = esbuildLoader\<rparr>), s')
                        | Some envPrefix \<Rightarrow>
                            (if envPrefix \<noteq> [] \<and> moduleType = Default then
                               (case inlineEnv envPrefix (env_get h) (decode h bs) of
                                  Inl err \<Rightarrow> (Inl err, s')
                                | Inr rewritten \<Rightarrow>
                                    (Inr (Some \<lparr>contents = Str rewritten,
                                                loader = esbuildLoader\<rparr>), s'))
                             else
                               (Inr (Some \<lparr>contents = Buf bs, loader = esbuildLoader\<rparr>),
                                s')))))))"

section \<open>A host and a loader for closed examples\<close>

text \<open>
  The examples below need a concrete host. Its two path conversions agree with
  \<^verbatim>\<open>@std/path\<close> on POSIX where the examples use them. \<^verbatim>\<open>fromFileUrl\<close> returns the path
  component of the URL, so a query or fragment is dropped; \<^verbatim>\<open>toFileUrl\<close> throws a
  \<^verbatim>\<open>TypeError\<close> on a path that is not absolute (one that does not begin with \<^verbatim>\<open>/\<close>). A path
  \<^verbatim>\<open>/p\<close> without escapes and dot segments converts to \<^verbatim>\<open>file:///p\<close> and back. Outside these
  inputs (a host in the URL, percent escapes, characters that need them, dot segments) the
  two definitions are not the library, and no example goes there. Its environment has
  \<^verbatim>\<open>FOO_BAR\<close> set to \<^verbatim>\<open>1\<close> and nothing else, and its getter throws a \<^verbatim>\<open>TypeError\<close> for a key
  that is empty or has \<^verbatim>\<open>=\<close> or NUL in it. Its decoder reads every byte as one code unit,
  which is UTF-8 for the bytes below 128.
\<close>

definition posix_fromFileUrl :: "string \<Rightarrow> thrown + string" where
  "posix_fromFileUrl url =
     (if startsWith url ''file:///'' then
        Inr (takeWhile (\<lambda>c. c \<noteq> CHR ''?'' \<and> c \<noteq> CHR ''#'') (drop 7 url))
      else Inl (ErrorInstance ''URL must be a file URL''))"

definition posix_toFileUrl :: "string \<Rightarrow> thrown + string" where
  "posix_toFileUrl p =
     (if startsWith p ''/'' then Inr (''file://'' @ p)
      else Inl (ErrorInstance ''Path must be absolute''))"

definition example_env :: "string \<Rightarrow> thrown + string option" where
  "example_env key =
     (if key = [] \<or> CHR ''='' \<in> set key \<or> CHR 0x00 \<in> set key then
        Inl (ErrorInstance ''Key contains invalid characters'')
      else Inr ([''FOO_BAR'' \<mapsto> ''1''] key))"

definition example_host :: host where
  "example_host =
     \<lparr>isBuiltin = (\<lambda>p. p \<in> set [''fs'', ''path'', ''node:fs'', ''node:path'']),
      fromFileUrl = posix_fromFileUrl,
      toFileUrl = posix_toFileUrl,
      decode = map (\<lambda>b. char_of (unat b)),
      env_get = example_env\<rparr>"

text \<open>
  A loader that answers every call with a fixed outcome; its state counts the calls made.
\<close>

definition fixed_loader :: "thrown + string \<Rightarrow> thrown + LoadResponse \<Rightarrow> nat loader" where
  "fixed_loader r l =
     \<lparr>resolve = (\<lambda>n spec referrer mode. (r, Suc n)), load = (\<lambda>n url t. (l, Suc n))\<rparr>"

section \<open>Definitions used in the statements\<close>

text \<open>
  The reading of an external pattern that the specification gives: \<^verbatim>\<open>*\<close> stands for any run
  of characters (the dot of the host excludes line terminators, so the run has none), and
  every other character stands for itself; the whole input must be covered.
\<close>

fun glob_match :: "string \<Rightarrow> string \<Rightarrow> bool" where
  "glob_match [] s = (s = [])"
| "glob_match (c # p) s =
     (if c = CHR ''*'' then
        (\<exists>n \<in> {0..length s}.
           (\<forall>x \<in> set (take n s). \<not> is_line_terminator x) \<and> glob_match p (drop n s))
      else (case s of [] \<Rightarrow> False | x # xs \<Rightarrow> x = c \<and> glob_match p xs))"

text \<open>The pieces that the source of an external pattern parses to, between the anchors.\<close>

definition glob_pieces :: "string \<Rightarrow> piece list" where
  "glob_pieces p = map (\<lambda>c. if c = CHR ''*'' then Rep Dot 0 True else One (Lit c)) p"

definition source_body :: "string \<Rightarrow> string" where
  "source_body pat = replace_stars (escape_meta pat)"

text \<open>
  The text of a call of the environment getter: the name between two quote characters,
  each of them single or double.
\<close>

definition getter_call :: "char \<Rightarrow> string \<Rightarrow> char \<Rightarrow> string" where
  "getter_call q1 name q2 = ''Deno.env.get('' @ [q1] @ name @ [q2] @ '')''"




text \<open>
  What one attempt tells its caller: the groups and the input left, or that it failed.
\<close>

definition outcome :: "(mstate \<times> string) option \<Rightarrow> ((nat \<rightharpoonup> string) \<times> string) option" where
  "outcome r = map_option (\<lambda>(st, rest). (groups st, rest)) r"


text \<open>Values for the closed examples.\<close>

definition not_prefixed_message :: string where
  "not_prefixed_message =
     ''Relative import path '' @ [dquote] @ ''foo'' @ [dquote] @
     '' not prefixed with / or ./ or ../''"

definition not_prefixed_head :: string where
  "not_prefixed_head = ''Relative import path '' @ [dquote]"

definition not_prefixed_tail :: string where
  "not_prefixed_tail = [dquote] @ '' not prefixed with''"

definition getter_bytes :: bytes where
  "getter_bytes =
     [0x44, 0x65, 0x6E, 0x6F, 0x2E, 0x65, 0x6E, 0x76, 0x2E, 0x67, 0x65, 0x74, 0x28,
      0x22, 0x46, 0x4F, 0x4F, 0x5F, 0x42, 0x41, 0x52, 0x22, 0x29]"




section \<open>Evaluation lemmas\<close>

lemma startsWith_Nil [simp]: "startsWith s []"
  by (simp add: startsWith_def)

lemma startsWith_Cons:
  "startsWith s (c # p) = (case s of [] \<Rightarrow> False | x # xs \<Rightarrow> x = c \<and> startsWith xs p)"
  by (cases s) (auto simp: startsWith_def)

lemma endsWith_rev: "endsWith s p = startsWith (rev s) (rev p)"
  by (simp add: endsWith_def startsWith_def suffix_to_prefix)

lemmas regex_eval = test_def initial_def advance_def lits_def is_line_terminator_def
  close_group_def is_word_char_def startsWith_Cons

lemma not_prefixed_message_matches: "test couldNotResolveReg not_prefixed_message"
  by (simp add: couldNotResolveReg_def not_prefixed_message_def regex_eval)

lemma not_found_no_match: "\<not> test couldNotResolveReg ''Module not found''"
  by (simp add: couldNotResolveReg_def regex_eval)

section \<open>Properties of the pure functions\<close>

text \<open>
  C1, as amended. \<^verbatim>\<open>getModuleType\<close> returns Text for the attribute \<^verbatim>\<open>type: "text"\<close> and Bytes
  for \<^verbatim>\<open>type: "bytes"\<close>, whatever the path; Json for \<^verbatim>\<open>type: "json"\<close>. In every other case,
  that is when the attribute is absent or has any other value, the extension decides:
  Json when the path ends in \<^verbatim>\<open>.json\<close>, Default otherwise.
\<close>

theorem getModuleType_precedence:
  "(withArgs ''type'' = Some ''text'' \<longrightarrow> getModuleType file withArgs = Text) \<and>
   (withArgs ''type'' = Some ''bytes'' \<longrightarrow> getModuleType file withArgs = Bytes) \<and>
   (withArgs ''type'' = Some ''json'' \<longrightarrow> getModuleType file withArgs = RJson) \<and>
   (withArgs ''type'' \<notin> {Some ''text'', Some ''bytes'', Some ''json''} \<longrightarrow>
      getModuleType file withArgs = (if endsWith file ''.json'' then RJson else Default))"
  by (simp add: getModuleType_def)

theorem getModuleType_precedence_witness:
  "getModuleType ''x.json'' [''type'' \<mapsto> ''text''] = Text \<and>
   getModuleType ''x.json'' [''type'' \<mapsto> ''bytes''] = Bytes \<and>
   getModuleType ''x.ts'' [''type'' \<mapsto> ''json''] = RJson \<and>
   getModuleType ''x.json'' Map.empty = RJson \<and>
   getModuleType ''x.ts'' Map.empty = Default \<and>
   getModuleType ''x.ts'' [''type'' \<mapsto> ''css''] = Default"
  using getModuleType_precedence [of "[''type'' \<mapsto> ''text'']" "''x.json''"]
    getModuleType_precedence [of "[''type'' \<mapsto> ''bytes'']" "''x.json''"]
    getModuleType_precedence [of "[''type'' \<mapsto> ''json'']" "''x.ts''"]
    getModuleType_precedence [of Map.empty "''x.json''"]
    getModuleType_precedence [of Map.empty "''x.ts''"]
    getModuleType_precedence [of "[''type'' \<mapsto> ''css'']" "''x.ts''"]
  by (simp add: endsWith_rev startsWith_Cons)

text \<open>
  The claim as written lets the extension decide only when no attribute is present. With
  the attribute \<^verbatim>\<open>type: "css"\<close> and the path \<^verbatim>\<open>x.json\<close> it expects Default; the \<^verbatim>\<open>default:\<close>
  label looks at the extension and returns Json.
\<close>

theorem getModuleType_other_attribute_counterexample:
  "getModuleType ''x.json'' [''type'' \<mapsto> ''css''] = RJson \<and>
   getModuleType ''x.json'' [''type'' \<mapsto> ''css''] \<noteq> Default"
  by (simp add: getModuleType_def endsWith_rev startsWith_Cons)

text \<open>
  C9. \<^verbatim>\<open>mediaToLoader\<close> is total over the media types and follows the table: Jsx to
  \<^verbatim>\<open>jsx\<close>; JavaScript, Mjs, Cjs to \<^verbatim>\<open>js\<close>; TypeScript, Mts, Dmts, Dcts to \<^verbatim>\<open>ts\<close>; Tsx to
  \<^verbatim>\<open>tsx\<close>; Css to \<^verbatim>\<open>css\<close>; Json and SourceMap to \<^verbatim>\<open>json\<close>; Wasm to \<^verbatim>\<open>binary\<close>; Html,
  Sql, Unknown and every value the switch does not name (Cts and Dts) to \<^verbatim>\<open>default\<close>.
  The result is always one of these eight loaders.
\<close>

theorem mediaToLoader_table:
  "mediaToLoader t =
     (if t = Jsx then L_jsx
      else if t \<in> {JavaScript, Mjs, Cjs} then L_js
      else if t \<in> {TypeScript, Mts, Dmts, Dcts} then L_ts
      else if t = Tsx then L_tsx
      else if t = Css then L_css
      else if t \<in> {Json, SourceMap} then L_json
      else if t = Wasm then L_binary
      else L_default)
   \<and> mediaToLoader t \<in> {L_jsx, L_js, L_ts, L_tsx, L_css, L_json, L_binary, L_default}"
  by (cases t) simp_all

section \<open>Lemmas about the matcher\<close>

text \<open>A sequence of literal pieces matches when the input starts with the literal.\<close>

lemma run_lits:
  "run (lits a @ ps) s st =
     (if startsWith s a then run ps (drop (length a) s) (st\<lparr>pos := pos st + length a\<rparr>)
      else None)"
proof (induction a arbitrary: s st)
  case Nil
  show ?case by (simp add: lits_def)
next
  case (Cons c a)
  have "lits (c # a) @ ps = One (Lit c) # (lits a @ ps)"
    by (simp add: lits_def)
  then show ?case
    using Cons.IH by (cases s) (simp_all add: startsWith_Cons advance_def)
qed

text \<open>
  \<^verbatim>\<open>.*\<close> or \<^verbatim>\<open>.*?\<close> in front of pieces \<open>ps\<close> matches when some run without a line terminator
  is followed by a match of \<open>ps\<close>; greedy and lazy differ in which match is found first,
  not in whether there is one.
\<close>

lemma split_first:
  "(\<exists>n \<in> {0..length (x # xs)}.
      (\<forall>y \<in> set (take n (x # xs)). \<not> is_line_terminator y) \<and> G (drop n (x # xs))) =
   (G (x # xs) \<or> (\<not> is_line_terminator x \<and>
      (\<exists>n \<in> {0..length xs}. (\<forall>y \<in> set (take n xs). \<not> is_line_terminator y) \<and> G (drop n xs))))"
  (is "?L = ?R")
proof
  assume ?L
  then obtain n where n: "n \<le> Suc (length xs)"
    "\<forall>y \<in> set (take n (x # xs)). \<not> is_line_terminator y" "G (drop n (x # xs))"
    by auto
  show ?R
  proof (cases n)
    case 0
    with n show ?thesis by simp
  next
    case (Suc m)
    with n show ?thesis by auto
  qed
next
  assume ?R
  then show ?L
  proof
    assume "G (x # xs)"
    then show ?L by (intro bexI [of _ 0]) simp_all
  next
    assume "\<not> is_line_terminator x \<and>
      (\<exists>n \<in> {0..length xs}. (\<forall>y \<in> set (take n xs). \<not> is_line_terminator y) \<and> G (drop n xs))"
    then obtain m where "m \<le> length xs" "\<not> is_line_terminator x"
      "\<forall>y \<in> set (take m xs). \<not> is_line_terminator y" "G (drop m xs)"
      by auto
    then show ?L by (intro bexI [of _ "Suc m"]) simp_all
  qed
qed

lemma run_rep_dot:
  assumes "\<And>s st. (run ps s st \<noteq> None) = G s"
  shows "(run (Rep Dot 0 g # ps) s st \<noteq> None) =
           (\<exists>n \<in> {0..length s}. (\<forall>x \<in> set (take n s). \<not> is_line_terminator x) \<and> G (drop n s))"
proof (induction s arbitrary: st)
  case Nil
  show ?case using assms [of "[]" st] by (cases g) (auto split: option.splits)
next
  case (Cons x xs)
  have "(run (Rep Dot 0 g # ps) (x # xs) st \<noteq> None) =
    (G (x # xs) \<or> (\<not> is_line_terminator x \<and> run (Rep Dot 0 g # ps) xs (advance st) \<noteq> None))"
    using assms [of "x # xs" st] by (cases g) (auto simp: Let_def split: option.splits)
  then show ?case
    using Cons.IH [of "advance st"] by (simp only: split_first)
qed

text \<open>The search succeeds when an attempt at some index does.\<close>

lemma search_iff:
  "search re s i = (\<exists>n \<in> {0..length s}. try_alts re (drop n s) (i + n) \<noteq> None)"
proof (induction s arbitrary: i)
  case Nil
  show ?case by simp
next
  case (Cons x xs)
  have "(\<exists>n \<in> {0..length (x # xs)}. try_alts re (drop n (x # xs)) (i + n) \<noteq> None) =
        (try_alts re (x # xs) i \<noteq> None \<or>
         (\<exists>n \<in> {0..length xs}. try_alts re (drop n xs) (Suc i + n) \<noteq> None))"
    (is "?L = ?R")
  proof
    assume ?L
    then obtain n where n: "n \<le> Suc (length xs)" "try_alts re (drop n (x # xs)) (i + n) \<noteq> None"
      by auto
    show ?R
    proof (cases n)
      case 0
      with n show ?thesis by simp
    next
      case (Suc m)
      with n have "m \<le> length xs" "try_alts re (drop m xs) (Suc i + m) \<noteq> None" by simp_all
      then show ?thesis by auto
    qed
  next
    assume ?R
    then show ?L
    proof
      assume "try_alts re (x # xs) i \<noteq> None"
      then show ?L by (intro bexI [of _ 0]) simp_all
    next
      assume "\<exists>n \<in> {0..length xs}. try_alts re (drop n xs) (Suc i + n) \<noteq> None"
      then obtain m where "m \<le> length xs" "try_alts re (drop m xs) (Suc i + m) \<noteq> None" by auto
      then show ?L by (intro bexI [of _ "Suc m"]) simp_all
    qed
  qed
  then show ?case using Cons.IH [of "Suc i"] by simp
qed

text \<open>A pattern that begins with \<^verbatim>\<open>^\<close> can match at index 0 only.\<close>

lemma search_anchored: "0 < i \<Longrightarrow> \<not> search [Bol # ps] s i"
  by (induction s arbitrary: i) (simp_all add: initial_def)

lemma test_anchored: "test [Bol # ps] s = (run ps s (initial 0) \<noteq> None)"
  by (cases s) (auto simp: test_def search_anchored initial_def split: option.splits)

lemma startsWith_append: "startsWith s a = (\<exists>t. s = a @ t)"
  by (auto simp: startsWith_def prefix_def)

text \<open>
  The pattern of the \<^verbatim>\<open>catch\<close> block matches a message exactly when the message contains
  \<^verbatim>\<open>Relative import path "\<close>, later \<^verbatim>\<open>" not prefixed with\<close>, and no line terminator between
  the two.
\<close>

lemma couldNotResolveReg_lits:
  "couldNotResolveReg = [lits not_prefixed_head @ Rep Dot 0 False # (lits not_prefixed_tail @ [])]"
  by (simp add: couldNotResolveReg_def lits_def not_prefixed_head_def not_prefixed_tail_def)

lemma test_couldNotResolveReg:
  "test couldNotResolveReg message =
     (\<exists>before mid after.
        message = before @ not_prefixed_head @ mid @ not_prefixed_tail @ after \<and>
        (\<forall>x \<in> set mid. \<not> is_line_terminator x))"
  (is "?L = ?R")
proof -
  have tail: "(run (lits not_prefixed_tail @ []) s st \<noteq> None) = startsWith s not_prefixed_tail" for s st
    by (simp only: run_lits) simp
  have at: "(try_alts couldNotResolveReg s i \<noteq> None) =
        (startsWith s not_prefixed_head \<and>
         (\<exists>k \<in> {0..length (drop (length not_prefixed_head) s)}.
            (\<forall>x \<in> set (take k (drop (length not_prefixed_head) s)). \<not> is_line_terminator x) \<and>
            startsWith (drop k (drop (length not_prefixed_head) s)) not_prefixed_tail))" for s i
  proof -
    have "(try_alts couldNotResolveReg s i \<noteq> None) =
          (run (lits not_prefixed_head @ Rep Dot 0 False # (lits not_prefixed_tail @ [])) s (initial i) \<noteq> None)"
      by (simp only: couldNotResolveReg_lits try_alts.simps) (simp split: option.splits)
    also have "\<dots> = (startsWith s not_prefixed_head \<and>
         run (Rep Dot 0 False # (lits not_prefixed_tail @ [])) (drop (length not_prefixed_head) s)
           (initial i\<lparr>pos := pos (initial i) + length not_prefixed_head\<rparr>) \<noteq> None)"
      by (simp only: run_lits) simp
    also have "\<dots> = (startsWith s not_prefixed_head \<and>
         (\<exists>k \<in> {0..length (drop (length not_prefixed_head) s)}.
            (\<forall>x \<in> set (take k (drop (length not_prefixed_head) s)). \<not> is_line_terminator x) \<and>
            startsWith (drop k (drop (length not_prefixed_head) s)) not_prefixed_tail))"
      by (simp only: run_rep_dot [of "lits not_prefixed_tail @ []" "\<lambda>s. startsWith s not_prefixed_tail", OF tail])
    finally show ?thesis .
  qed
  show ?thesis
  proof
    assume ?L
    then obtain n where n: "n \<le> length message" "try_alts couldNotResolveReg (drop n message) (0 + n) \<noteq> None"
      unfolding test_def search_iff by auto
    let ?d = "drop n message"
    from n(2) have sw: "startsWith ?d not_prefixed_head"
      and ex: "\<exists>k \<in> {0..length (drop (length not_prefixed_head) ?d)}.
            (\<forall>x \<in> set (take k (drop (length not_prefixed_head) ?d)). \<not> is_line_terminator x) \<and>
            startsWith (drop k (drop (length not_prefixed_head) ?d)) not_prefixed_tail"
      unfolding at by blast+
    from sw obtain r where r: "drop n message = not_prefixed_head @ r"
      unfolding startsWith_append by blast
    then have dr: "drop (length not_prefixed_head) ?d = r" by simp
    from ex obtain k t where
      k: "\<forall>x \<in> set (take k r). \<not> is_line_terminator x" "drop k r = not_prefixed_tail @ t"
      unfolding dr startsWith_append by blast
    have "message = take n message @ not_prefixed_head @ take k r @ not_prefixed_tail @ t"
      using r k(2) by (metis append_take_drop_id)
    with k(1) show ?R by blast
  next
    assume ?R
    then obtain before mid after where
      m: "message = before @ not_prefixed_head @ mid @ not_prefixed_tail @ after"
      and lt: "\<forall>x \<in> set mid. \<not> is_line_terminator x"
      by blast
    have "try_alts couldNotResolveReg (drop (length before) message) (0 + length before) \<noteq> None"
      unfolding at startsWith_append using m lt
      by (auto intro!: bexI [of _ "length mid"])
    moreover have "length before \<le> length message" using m by simp
    ultimately show ?L
      unfolding test_def search_iff by (auto intro!: bexI [of _ "length before"])
  qed
qed

section \<open>Properties of the external patterns\<close>

lemma source_body_Nil [simp]: "source_body [] = []"
  by (simp add: source_body_def replace_stars_def escape_meta_def)

lemma source_body_Cons:
  "source_body (c # p) =
     (if c \<in> set escaped_chars then [backslash, c]
      else if c = CHR ''*'' then ''.*'' else [c]) @ source_body p"
  by (auto simp: source_body_def replace_stars_def escape_meta_def escaped_chars_def)

text \<open>
  What follows a character of the source is never a quantifier, and what follows the star
  of \<^verbatim>\<open>.*\<close> is never the question mark that would make it lazy.
\<close>

lemma quantified_body:
  "quantified a (source_body p @ ''$'') = (One a, source_body p @ ''$'')"
  by (cases p) (auto simp: quantified_def source_body_Cons escaped_chars_def)

lemma quantified_star:
  "quantified Dot (CHR ''*'' # source_body p @ ''$'') = (Rep Dot 0 True, source_body p @ ''$'')"
  by (cases p) (auto simp: quantified_def source_body_Cons escaped_chars_def)

lemma parse_body: "parse_pieces (source_body p @ ''$'') = Some (glob_pieces p @ [Eol])"
proof (induction p)
  case Nil
  show ?case by (simp add: glob_pieces_def)
next
  case (Cons c p)
  consider (esc) "c \<in> set escaped_chars" | (star) "c = CHR ''*''"
    | (plain) "c \<notin> set escaped_chars" "c \<noteq> CHR ''*''"
    by blast
  then show ?case
  proof cases
    case esc
    then have "c \<noteq> CHR ''*''" by (auto simp: escaped_chars_def)
    moreover from esc have "c \<in> set syntax_chars \<or> c = CHR ''-'' \<or> c = CHR ''/''"
      by (auto simp: escaped_chars_def syntax_chars_def)
    ultimately show ?thesis
      using esc Cons.IH
      by (simp add: source_body_Cons quantified_body glob_pieces_def)
  next
    case star
    then show ?thesis
      using Cons.IH
      by (simp add: source_body_Cons quantified_star glob_pieces_def escaped_chars_def)
  next
    case plain
    then have "c \<noteq> CHR ''^''" "c \<noteq> CHR ''$''" "c \<noteq> backslash" "c \<noteq> CHR ''.''"
      "c \<notin> set syntax_chars"
      by (auto simp: escaped_chars_def syntax_chars_def)
    then show ?thesis
      using plain Cons.IH
      by (simp add: source_body_Cons quantified_body glob_pieces_def)
  qed
qed

lemma externalToRegex_pieces:
  "externalToRegex pat = Some [Bol # glob_pieces pat @ [Eol]]"
  using parse_body [of pat]
  by (simp add: externalToRegex_def RegExp_new_def regex_source_def source_body_def)

lemma run_glob: "(run (glob_pieces p @ [Eol]) s st \<noteq> None) = glob_match p s"
proof (induction p arbitrary: s st)
  case Nil
  show ?case by (simp add: glob_pieces_def)
next
  case (Cons c p)
  show ?case
  proof (cases "c = CHR ''*''")
    case True
    have "glob_pieces (c # p) @ [Eol] = Rep Dot 0 True # (glob_pieces p @ [Eol])"
      using True by (simp add: glob_pieces_def)
    then show ?thesis
      using True run_rep_dot [of "glob_pieces p @ [Eol]" "glob_match p" True s st] Cons.IH
      by simp
  next
    case False
    have "glob_pieces (c # p) @ [Eol] = One (Lit c) # (glob_pieces p @ [Eol])"
      using False by (simp add: glob_pieces_def)
    then show ?thesis
      using False Cons.IH by (auto split: list.splits)
  qed
qed

lemma test_externalToRegex:
  "test [Bol # glob_pieces pat @ [Eol]] s = glob_match pat s"
  by (simp only: test_anchored run_glob)

lemma glob_match_lodash: "glob_match ''lodash'' s = (s = ''lodash'')"
  by (auto split: list.splits)

lemma glob_match_foo:
  "glob_match ''@foo/*'' ''@foo/bar''" "glob_match ''@foo/*'' ''@foo/''"
  "\<not> glob_match ''@foo/*'' ''@foobar''"
  by (simp_all add: is_line_terminator_def)

lemma glob_match_dot:
  "glob_match ''a.b*'' ''a.bcd''" "\<not> glob_match ''a.b*'' ''axbcd''"
  by (simp_all add: is_line_terminator_def)

lemma regex_source_one_pass:
  "regex_source pat =
     ''^'' @ concat (map (\<lambda>c. if c = CHR ''*'' then ''.*''
                              else if c \<in> set syntax_chars then [backslash, c]
                              else if c = CHR ''-'' \<or> c = CHR ''/'' then [backslash, c]
                              else [c]) pat) @ ''$''"
proof -
  have "replace_stars (escape_meta pat) =
        concat (map (\<lambda>c. if c = CHR ''*'' then ''.*''
                              else if c \<in> set syntax_chars then [backslash, c]
                              else if c = CHR ''-'' \<or> c = CHR ''/'' then [backslash, c]
                              else [c]) pat)"
    by (induction pat)
      (auto simp: replace_stars_def escape_meta_def escaped_chars_def syntax_chars_def)
  then show ?thesis
    by (simp add: regex_source_def)
qed

text \<open>
  C7. \<^verbatim>\<open>externalToRegex\<close> never throws. The source it builds is \<^verbatim>\<open>^\<close>, then for every
  character of the pattern \<^verbatim>\<open>.*\<close> if it is \<^verbatim>\<open>*\<close>, the character behind a backslash if it is
  another syntax character of regular expressions (or \<^verbatim>\<open>-\<close> or \<^verbatim>\<open>/\<close>) and the character
  itself otherwise, then \<^verbatim>\<open>$\<close>. The compiled pattern matches exactly the inputs that the
  glob reading of the pattern accepts as a whole. So the pattern of \<^verbatim>\<open>@foo/*\<close> matches
  \<^verbatim>\<open>@foo/bar\<close> and \<^verbatim>\<open>@foo/\<close> and not \<^verbatim>\<open>@foobar\<close>, and the pattern of \<^verbatim>\<open>lodash\<close> matches the
  string \<^verbatim>\<open>lodash\<close> and no other. The result is a function of the pattern string: compiling
  it twice gives the same matcher.
\<close>

theorem externalToRegex_glob:
  "(\<exists>re. externalToRegex pat = Some re \<and> (\<forall>s. test re s = glob_match pat s)) \<and>
   regex_source pat =
     ''^'' @ concat (map (\<lambda>c. if c = CHR ''*'' then ''.*''
                              else if c \<in> set syntax_chars then [backslash, c]
                              else if c = CHR ''-'' \<or> c = CHR ''/'' then [backslash, c]
                              else [c]) pat) @ ''$'' \<and>
   (\<exists>re. externalToRegex ''@foo/*'' = Some re \<and>
         test re ''@foo/bar'' \<and> test re ''@foo/'' \<and> \<not> test re ''@foobar'') \<and>
   (\<exists>re. externalToRegex ''lodash'' = Some re \<and> (\<forall>s. test re s = (s = ''lodash'')))"
proof (intro conjI)
  show "\<exists>re. externalToRegex pat = Some re \<and> (\<forall>s. test re s = glob_match pat s)"
    by (simp add: externalToRegex_pieces test_externalToRegex)
  show "regex_source pat =
     ''^'' @ concat (map (\<lambda>c. if c = CHR ''*'' then ''.*''
                              else if c \<in> set syntax_chars then [backslash, c]
                              else if c = CHR ''-'' \<or> c = CHR ''/'' then [backslash, c]
                              else [c]) pat) @ ''$''"
    by (rule regex_source_one_pass)
  show "\<exists>re. externalToRegex ''@foo/*'' = Some re \<and>
         test re ''@foo/bar'' \<and> test re ''@foo/'' \<and> \<not> test re ''@foobar''"
  proof (intro exI conjI)
    show "externalToRegex ''@foo/*'' = Some [Bol # glob_pieces ''@foo/*'' @ [Eol]]"
      by (rule externalToRegex_pieces)
  qed (simp_all only: test_externalToRegex glob_match_foo simp_thms)
  show "\<exists>re. externalToRegex ''lodash'' = Some re \<and> (\<forall>s. test re s = (s = ''lodash''))"
  proof (intro exI conjI allI)
    show "externalToRegex ''lodash'' = Some [Bol # glob_pieces ''lodash'' @ [Eol]]"
      by (rule externalToRegex_pieces)
  qed (simp only: test_externalToRegex glob_match_lodash)
qed

theorem externalToRegex_glob_witness:
  "(\<exists>re. externalToRegex ''a.b*'' = Some re \<and> test re ''a.bcd'' \<and> \<not> test re ''axbcd'') \<and>
   regex_source ''a.b*'' = ''^a'' @ [backslash] @ ''.b.*$''"
proof -
  obtain re where re: "externalToRegex ''a.b*'' = Some re"
    "\<forall>s. test re s = glob_match ''a.b*'' s"
    using externalToRegex_glob [of "''a.b*''", THEN conjunct1] by blast
  have "test re ''a.bcd''" "\<not> test re ''axbcd''"
    by (simp_all only: re(2) glob_match_dot simp_thms)
  moreover have "regex_source ''a.b*'' = ''^a'' @ [backslash] @ ''.b.*$''"
    using externalToRegex_glob [of "''a.b*''", THEN conjunct2, THEN conjunct1]
    by (simp add: syntax_chars_def)
  ultimately show ?thesis
    using re(1) by blast
qed

section \<open>Properties of the inlining\<close>

text \<open>
  The pattern of the load hook has no anchor, so an attempt does not depend on the index
  at which it is made, and neither does the scan.
\<close>

lemma outcome_simps [simp]:
  "outcome None = None" "outcome (Some (st, rest)) = Some (groups st, rest)"
  by (simp_all add: outcome_def)





















lemma inlineEnv_Nil: "inlineEnv envPrefix env [] = Inr []"
  by (simp add: inlineEnv_def replaceAll_def replaceAll_from.simps envReg_def lits_def)

lemmas inlineEnv_eval = inlineEnv_def replaceAll_def replaceAll_from.simps envReg_def
  getter_call_def replacer_def ToString_def JSON_stringify_def QuoteJSONString_def
  json_escape_def regex_eval







text \<open>
  Both call shapes in one source, evaluated; and a name that the getter of the host
  rejects, where the hook throws what the getter throws.
\<close>

lemma inlineEnv_both_shapes:
  "inlineEnv ''FOO_'' example_env
     (''a = '' @ getter_call dquote ''FOO_BAR'' squote @
      '' + process.env.FOO_BAR + process.env.HOME;'') =
   Inr (''a = '' @ [dquote] @ ''1'' @ [dquote] @ '' + '' @ [dquote] @ ''1'' @ [dquote] @
        '' + process.env.HOME;'')"
  by (simp add: inlineEnv_eval example_env_def)

lemma inlineEnv_invalid_key:
  "inlineEnv ''FOO_'' example_env (getter_call dquote ''FOO_A=B'' dquote) =
     Inl (ErrorInstance ''Key contains invalid characters'')"
  by (simp add: inlineEnv_eval example_env_def)

section \<open>Properties of the resolve hook\<close>

text \<open>
  C2. For a specifier that names a builtin module of the host or that one of the compiled
  external patterns matches, the resolve hook returns \<^verbatim>\<open>{path: specifier, external: true}\<close>
  and leaves the state of the loader as it was: the loader is not called, and the result
  is the same for every loader and every loader state.
\<close>

theorem onResolve_short_circuit:
  assumes "isBuiltin h (path args) \<or> (\<exists>reg \<in> set externals. test reg (path args))"
  shows "onResolve h externals ld args s =
           (Inr (Some \<lparr>result_path = path args, external = Some True, namespace = None\<rparr>), s)
         \<and> fst (onResolve h externals ld args s) = fst (onResolve h externals ld' args s')"
  using assms by (auto simp: onResolve_def list_ex_iff)

theorem onResolve_short_circuit_witness:
  "onResolve example_host [[Bol # lits ''@foo/'' @ [Rep Dot 0 True, Eol]]]
     (fixed_loader (Inl (OtherValue ''unreachable'')) (Inl (OtherValue ''unreachable'')))
     \<lparr>path = ''@foo/bar'', importer = ''/src/main.ts'', kind = import_statement\<rparr> 0
   = (Inr (Some \<lparr>result_path = ''@foo/bar'', external = Some True, namespace = None\<rparr>), 0)
   \<and> onResolve example_host []
     (fixed_loader (Inl (OtherValue ''unreachable'')) (Inl (OtherValue ''unreachable'')))
     \<lparr>path = ''node:fs'', importer = ''/src/main.ts'', kind = require_call\<rparr> 0
   = (Inr (Some \<lparr>result_path = ''node:fs'', external = Some True, namespace = None\<rparr>), 0)"
proof -
  let ?ld = "fixed_loader (Inl (OtherValue ''unreachable'')) (Inl (OtherValue ''unreachable''))"
  let ?a1 = "\<lparr>path = ''@foo/bar'', importer = ''/src/main.ts'', kind = import_statement\<rparr>"
  let ?a2 = "\<lparr>path = ''node:fs'', importer = ''/src/main.ts'', kind = require_call\<rparr>"
  let ?ext = "[[Bol # lits ''@foo/'' @ [Rep Dot 0 True, Eol]]]"
  have h1: "isBuiltin example_host (path ?a1) \<or> (\<exists>reg \<in> set ?ext. test reg (path ?a1))"
    by (simp add: regex_eval)
  have h2: "isBuiltin example_host (path ?a2) \<or> (\<exists>reg \<in> set []. test reg (path ?a2))"
    by (simp add: example_host_def)
  show ?thesis
    using onResolve_short_circuit [OF h1, of ?ld 0 ?ld 0]
      onResolve_short_circuit [OF h2, of ?ld 0 ?ld 0]
    by simp
qed

text \<open>
  C3. When the specifier is not external and the loader's \<^verbatim>\<open>resolve\<close> rejects with an
  \<^verbatim>\<open>Error\<close> whose message the pattern \<^verbatim>\<open>Relative import path ".*?" not prefixed with\<close>
  matches, the resolve hook returns \<^verbatim>\<open>null\<close> and throws nothing; every other rejection is
  thrown on unchanged.
\<close>

theorem onResolve_catch:
  assumes "\<not> isBuiltin h (path args)" and "\<not> list_ex (\<lambda>reg. test reg (path args)) externals"
    and "resolve ld s (path args) (Some (importer args)) (resolution_mode (kind args)) = (Inl err, s')"
  shows "((\<exists>message. err = ErrorInstance message \<and> test couldNotResolveReg message) \<longrightarrow>
            onResolve h externals ld args s = (Inr None, s')) \<and>
         (\<not> (\<exists>message. err = ErrorInstance message \<and> test couldNotResolveReg message) \<longrightarrow>
            onResolve h externals ld args s = (Inl err, s'))"
  using assms by (auto simp: onResolve_def catch_resolve_def split: thrown.splits)

theorem onResolve_catch_witness:
  "onResolve example_host []
     (fixed_loader (Inl (ErrorInstance not_prefixed_message)) (Inl (OtherValue [])))
     \<lparr>path = ''foo'', importer = ''/src/main.ts'', kind = import_statement\<rparr> 0
   = (Inr None, 1)
   \<and> onResolve example_host []
     (fixed_loader (Inl (ErrorInstance ''Module not found'')) (Inl (OtherValue [])))
     \<lparr>path = ''foo'', importer = ''/src/main.ts'', kind = import_statement\<rparr> 0
   = (Inl (ErrorInstance ''Module not found''), 1)"
proof -
  let ?args = "\<lparr>path = ''foo'', importer = ''/src/main.ts'', kind = import_statement\<rparr>"
  let ?l1 = "fixed_loader (Inl (ErrorInstance not_prefixed_message)) (Inl (OtherValue []))"
  let ?l2 = "fixed_loader (Inl (ErrorInstance ''Module not found'')) (Inl (OtherValue []))"
  have b: "\<not> isBuiltin example_host (path ?args)"
    by (simp add: example_host_def)
  have e: "\<not> list_ex (\<lambda>reg. test reg (path ?args)) []"
    by simp
  have r1: "resolve ?l1 0 (path ?args) (Some (importer ?args)) (resolution_mode (kind ?args)) =
              (Inl (ErrorInstance not_prefixed_message), 1)"
    by (simp add: fixed_loader_def)
  have r2: "resolve ?l2 0 (path ?args) (Some (importer ?args)) (resolution_mode (kind ?args)) =
              (Inl (ErrorInstance ''Module not found''), 1)"
    by (simp add: fixed_loader_def)
  show ?thesis
    using onResolve_catch [OF b e r1] onResolve_catch [OF b e r2]
      not_prefixed_message_matches not_found_no_match
    by simp
qed

text \<open>
  C6. The namespace that the resolve hook computes is a function of the resolved URL
  alone: \<^verbatim>\<open>file\<close>, \<^verbatim>\<open>http\<close>, \<^verbatim>\<open>https\<close>, \<^verbatim>\<open>npm\<close> or \<^verbatim>\<open>jsr\<close> for a URL that begins with that scheme
  and a colon, and unset for every other URL. No two of the five prefixes apply to the
  same URL, so the order of the tests does not matter.
\<close>

theorem namespace_of_scheme:
  "(startsWith res ''file:'' \<longrightarrow> namespace_of res = Some ''file'') \<and>
   (startsWith res ''http:'' \<longrightarrow> namespace_of res = Some ''http'') \<and>
   (startsWith res ''https:'' \<longrightarrow> namespace_of res = Some ''https'') \<and>
   (startsWith res ''npm:'' \<longrightarrow> namespace_of res = Some ''npm'') \<and>
   (startsWith res ''jsr:'' \<longrightarrow> namespace_of res = Some ''jsr'') \<and>
   (\<not> startsWith res ''file:'' \<and> \<not> startsWith res ''http:'' \<and> \<not> startsWith res ''https:'' \<and>
    \<not> startsWith res ''npm:'' \<and> \<not> startsWith res ''jsr:'' \<longrightarrow> namespace_of res = None)"
  by (auto simp: namespace_of_def startsWith_Cons split: list.splits)

theorem namespace_of_scheme_witness:
  "namespace_of ''file:///src/mod.ts'' = Some ''file'' \<and>
   namespace_of ''http://example.com/mod.ts'' = Some ''http'' \<and>
   namespace_of ''https://example.com/mod.ts'' = Some ''https'' \<and>
   namespace_of ''npm:preact@10.27.0'' = Some ''npm'' \<and>
   namespace_of ''jsr:@std/path@1.1.1'' = Some ''jsr'' \<and>
   namespace_of ''data:text/javascript,1'' = None"
  using namespace_of_scheme [of "''file:///src/mod.ts''"]
    namespace_of_scheme [of "''http://example.com/mod.ts''"]
    namespace_of_scheme [of "''https://example.com/mod.ts''"]
    namespace_of_scheme [of "''npm:preact@10.27.0''"]
    namespace_of_scheme [of "''jsr:@std/path@1.1.1''"]
    namespace_of_scheme [of "''data:text/javascript,1''"]
  by (simp add: startsWith_Cons)

text \<open>
  C8. When the specifier is not external and the loader resolves it to a URL: if the
  namespace of the URL is \<^verbatim>\<open>file\<close> and the URL converts to a platform path, the hook returns
  that path; for every other namespace, unset included, it returns the URL itself.
\<close>

theorem onResolve_path:
  assumes "\<not> isBuiltin h (path args)" and "\<not> list_ex (\<lambda>reg. test reg (path args)) externals"
    and "resolve ld s (path args) (Some (importer args)) (resolution_mode (kind args)) = (Inr res, s')"
  shows "(namespace_of res = Some ''file'' \<and> fromFileUrl h res = Inr p \<longrightarrow>
            onResolve h externals ld args s =
              (Inr (Some \<lparr>result_path = p, external = None, namespace = Some ''file''\<rparr>), s')) \<and>
         (namespace_of res \<noteq> Some ''file'' \<longrightarrow>
            onResolve h externals ld args s =
              (Inr (Some \<lparr>result_path = res, external = None, namespace = namespace_of res\<rparr>), s'))"
  using assms
  by (auto simp: onResolve_def resolved_path_def namespace_of_def split: if_splits)

theorem onResolve_path_witness:
  "onResolve example_host []
     (fixed_loader (Inr ''file:///src/a.ts'') (Inl (OtherValue [])))
     \<lparr>path = ''./a.ts'', importer = ''/src/main.ts'', kind = import_statement\<rparr> 0
   = (Inr (Some \<lparr>result_path = ''/src/a.ts'', external = None, namespace = Some ''file''\<rparr>), 1)
   \<and> onResolve example_host []
     (fixed_loader (Inr ''https://example.com/a.ts'') (Inl (OtherValue [])))
     \<lparr>path = ''./a.ts'', importer = ''https://example.com/mod.ts'', kind = import_statement\<rparr> 0
   = (Inr (Some \<lparr>result_path = ''https://example.com/a.ts'', external = None,
                  namespace = Some ''https''\<rparr>), 1)"
proof -
  let ?a1 = "\<lparr>path = ''./a.ts'', importer = ''/src/main.ts'', kind = import_statement\<rparr>"
  let ?a2 = "\<lparr>path = ''./a.ts'', importer = ''https://example.com/mod.ts'',
              kind = import_statement\<rparr>"
  let ?l1 = "fixed_loader (Inr ''file:///src/a.ts'') (Inl (OtherValue []))"
  let ?l2 = "fixed_loader (Inr ''https://example.com/a.ts'') (Inl (OtherValue []))"
  have b1: "\<not> isBuiltin example_host (path ?a1)" and b2: "\<not> isBuiltin example_host (path ?a2)"
    by (simp_all add: example_host_def)
  have e1: "\<not> list_ex (\<lambda>reg. test reg (path ?a1)) []"
    and e2: "\<not> list_ex (\<lambda>reg. test reg (path ?a2)) []"
    by simp_all
  have r1: "resolve ?l1 0 (path ?a1) (Some (importer ?a1)) (resolution_mode (kind ?a1)) =
              (Inr ''file:///src/a.ts'', 1)"
    by (simp add: fixed_loader_def)
  have r2: "resolve ?l2 0 (path ?a2) (Some (importer ?a2)) (resolution_mode (kind ?a2)) =
              (Inr ''https://example.com/a.ts'', 1)"
    by (simp add: fixed_loader_def)
  show ?thesis
    using onResolve_path [OF b1 e1 r1, of "''/src/a.ts''"] onResolve_path [OF b2 e2 r2]
    by (simp add: namespace_of_def startsWith_Cons example_host_def posix_fromFileUrl_def)
qed

section \<open>Properties of the load hook\<close>

text \<open>
  The other branch, for contrast: with a prefix that is not empty and the Default module
  type the hook returns the decoded and rewritten text, or throws what the rewriting throws.
\<close>

lemma onLoad_inlining:
  assumes "publicEnvVarPrefix options = Some envPrefix" and "envPrefix \<noteq> []"
    and "getModuleType (load_path args) (with_attrs args) = Default"
    and "load_url h (load_path args) = Inr url"
    and "load ld s url Default = (Inr (Module spec mt bs), s')"
  shows "onLoad options h ld args s =
           (case inlineEnv envPrefix (env_get h) (decode h bs) of
              Inl err \<Rightarrow> (Inl err, s')
            | Inr rewritten \<Rightarrow>
                (Inr (Some \<lparr>contents = Str rewritten, loader = mediaToLoader mt\<rparr>), s'))"
  using assms by (simp add: onLoad_def Let_def)

text \<open>
  C10. When \<^verbatim>\<open>publicEnvVarPrefix\<close> is absent or the empty string, or the requested module
  type is not Default, and the loader returns a module, the load hook returns the bytes of
  the loader unchanged, with the loader field taken from the media type. The empty prefix
  switches the inlining off although every name starts with it.
\<close>

theorem onLoad_no_inlining:
  assumes "publicEnvVarPrefix options = None \<or> publicEnvVarPrefix options = Some [] \<or>
           getModuleType (load_path args) (with_attrs args) \<noteq> Default"
    and "load_url h (load_path args) = Inr url"
    and "load ld s url (getModuleType (load_path args) (with_attrs args)) =
           (Inr (Module spec mt bs), s')"
  shows "onLoad options h ld args s =
           (Inr (Some \<lparr>contents = Buf bs, loader = mediaToLoader mt\<rparr>), s')
         \<and> startsWith name []"
  using assms by (auto simp: onLoad_def Let_def split: option.splits)

theorem onLoad_no_inlining_witness:
  "onLoad \<lparr>debug = None, configPath = None, noTranspile = None, preserveJsx = None,
           publicEnvVarPrefix = Some []\<rparr>
     example_host
     (fixed_loader (Inl (OtherValue [])) (Inr (Module ''file:///src/a.ts'' TypeScript getter_bytes)))
     \<lparr>load_path = ''/src/a.ts'', with_attrs = Map.empty\<rparr> 0
   = (Inr (Some \<lparr>contents = Buf getter_bytes, loader = L_ts\<rparr>), 1)"
proof -
  let ?o = "\<lparr>debug = None, configPath = None, noTranspile = None, preserveJsx = None,
             publicEnvVarPrefix = Some []\<rparr>"
  let ?a = "\<lparr>load_path = ''/src/a.ts'', with_attrs = Map.empty\<rparr>"
  let ?l = "fixed_loader (Inl (OtherValue []))
              (Inr (Module ''file:///src/a.ts'' TypeScript getter_bytes))"
  have p: "publicEnvVarPrefix ?o = None \<or> publicEnvVarPrefix ?o = Some [] \<or>
           getModuleType (load_path ?a) (with_attrs ?a) \<noteq> Default"
    by simp
  have u: "load_url example_host (load_path ?a) = Inr ''file:///src/a.ts''"
    by (simp add: load_url_def startsWith_Cons example_host_def posix_toFileUrl_def)
  have l: "load ?l 0 ''file:///src/a.ts'' (getModuleType (load_path ?a) (with_attrs ?a)) =
             (Inr (Module ''file:///src/a.ts'' TypeScript getter_bytes), 1)"
    by (simp add: fixed_loader_def)
  show ?thesis
    using onLoad_no_inlining [OF p u l] by simp
qed

section \<open>Properties that span both hooks\<close>

text \<open>
  C5, as amended. Let the loader resolve a specifier that is not external to a URL, and let
  the path that the resolve hook returns be handed to the load hook. For a URL that begins
  with \<^verbatim>\<open>http:\<close>, \<^verbatim>\<open>https:\<close>, \<^verbatim>\<open>npm:\<close> or \<^verbatim>\<open>jsr:\<close> the load hook loads exactly that URL. For a
  URL that begins with \<^verbatim>\<open>file:\<close> the load hook derives its URL again, from the platform
  path: it loads \<^verbatim>\<open>toFileUrl(fromFileUrl(url))\<close>, which is the resolved URL exactly when
  the path library takes the URL to a path and back to the same string.
\<close>

theorem load_url_of_resolved:
  assumes "\<not> isBuiltin h (path args)" and "\<not> list_ex (\<lambda>reg. test reg (path args)) externals"
    and "resolve ld s (path args) (Some (importer args)) (resolution_mode (kind args)) = (Inr res, s')"
  shows "(startsWith res ''http:'' \<or> startsWith res ''https:'' \<or> startsWith res ''npm:'' \<or>
          startsWith res ''jsr:'' \<longrightarrow>
            (\<exists>r. onResolve h externals ld args s = (Inr (Some r), s') \<and>
                 load_url h (result_path r) = Inr res)) \<and>
         (startsWith res ''file:'' \<and> fromFileUrl h res = Inr p \<longrightarrow>
            (\<exists>r. onResolve h externals ld args s = (Inr (Some r), s') \<and>
                 load_url h (result_path r) =
                   (if startsWith p ''http:'' \<or> startsWith p ''https:'' \<or> startsWith p ''npm:'' \<or>
                       startsWith p ''jsr:''
                    then Inr p else toFileUrl h p) \<and>
                 (load_url h (result_path r) = Inr res \<longleftrightarrow>
                    \<not> (startsWith p ''http:'' \<or> startsWith p ''https:'' \<or> startsWith p ''npm:'' \<or>
                       startsWith p ''jsr:'') \<and> toFileUrl h p = Inr res)))"
  using assms
  by (auto simp: onResolve_def resolved_path_def load_url_def startsWith_Cons split: list.splits)

theorem load_url_of_resolved_witness:
  "(\<exists>r. onResolve example_host []
          (fixed_loader (Inr ''https://example.com/a.ts'') (Inl (OtherValue [])))
          \<lparr>path = ''./a.ts'', importer = ''https://example.com/mod.ts'',
            kind = import_statement\<rparr> 0 = (Inr (Some r), 1) \<and>
        load_url example_host (result_path r) = Inr ''https://example.com/a.ts'') \<and>
   (\<exists>r. onResolve example_host []
          (fixed_loader (Inr ''file:///src/a.ts'') (Inl (OtherValue [])))
          \<lparr>path = ''./a.ts'', importer = ''/src/main.ts'', kind = import_statement\<rparr> 0 =
            (Inr (Some r), 1) \<and>
        load_url example_host (result_path r) = Inr ''file:///src/a.ts'')"
proof -
  let ?a1 = "\<lparr>path = ''./a.ts'', importer = ''https://example.com/mod.ts'',
              kind = import_statement\<rparr>"
  let ?a2 = "\<lparr>path = ''./a.ts'', importer = ''/src/main.ts'', kind = import_statement\<rparr>"
  let ?l1 = "fixed_loader (Inr ''https://example.com/a.ts'') (Inl (OtherValue []))"
  let ?l2 = "fixed_loader (Inr ''file:///src/a.ts'') (Inl (OtherValue []))"
  have b1: "\<not> isBuiltin example_host (path ?a1)" and b2: "\<not> isBuiltin example_host (path ?a2)"
    by (simp_all add: example_host_def)
  have e1: "\<not> list_ex (\<lambda>reg. test reg (path ?a1)) []"
    and e2: "\<not> list_ex (\<lambda>reg. test reg (path ?a2)) []"
    by simp_all
  have r1: "resolve ?l1 0 (path ?a1) (Some (importer ?a1)) (resolution_mode (kind ?a1)) =
              (Inr ''https://example.com/a.ts'', 1)"
    by (simp add: fixed_loader_def)
  have r2: "resolve ?l2 0 (path ?a2) (Some (importer ?a2)) (resolution_mode (kind ?a2)) =
              (Inr ''file:///src/a.ts'', 1)"
    by (simp add: fixed_loader_def)
  have f: "fromFileUrl example_host ''file:///src/a.ts'' = Inr ''/src/a.ts''"
    by (simp add: example_host_def posix_fromFileUrl_def startsWith_Cons)
  have t: "toFileUrl example_host ''/src/a.ts'' = Inr ''file:///src/a.ts''"
    by (simp add: example_host_def posix_toFileUrl_def startsWith_Cons)
  have "\<exists>r. onResolve example_host [] ?l1 ?a1 0 = (Inr (Some r), 1) \<and>
          load_url example_host (result_path r) = Inr ''https://example.com/a.ts''"
    using load_url_of_resolved [OF b1 e1 r1] by (simp add: startsWith_Cons)
  moreover have "\<exists>r. onResolve example_host [] ?l2 ?a2 0 = (Inr (Some r), 1) \<and>
          load_url example_host (result_path r) = Inr ''file:///src/a.ts''"
    using load_url_of_resolved [OF b2 e2 r2, of "''/src/a.ts''"] f t
    by (simp add: startsWith_Cons)
  ultimately show ?thesis by blast
qed

text \<open>
  The claim as written says that the URL is never derived again. For a file URL it is, and
  the two can differ: the loader resolves \<^verbatim>\<open>./a.ts?v=1\<close> to \<^verbatim>\<open>file:///src/a.ts?v=1\<close>, the
  resolve hook returns the path \<^verbatim>\<open>/src/a.ts\<close>, and the load hook loads \<^verbatim>\<open>file:///src/a.ts\<close>.
\<close>

theorem load_url_query_counterexample:
  "onResolve example_host []
     (fixed_loader (Inr ''file:///src/a.ts?v=1'') (Inl (OtherValue [])))
     \<lparr>path = ''./a.ts?v=1'', importer = ''/src/main.ts'', kind = import_statement\<rparr> 0
   = (Inr (Some \<lparr>result_path = ''/src/a.ts'', external = None, namespace = Some ''file''\<rparr>), 1)
   \<and> load_url example_host ''/src/a.ts'' = Inr ''file:///src/a.ts''
   \<and> load_url example_host ''/src/a.ts'' \<noteq> Inr ''file:///src/a.ts?v=1''"
  by (simp add: onResolve_def example_host_def fixed_loader_def resolved_path_def namespace_of_def
      load_url_def posix_toFileUrl_def posix_fromFileUrl_def resolution_mode_def startsWith_Cons)

text \<open>
  A URL outside the five schemes fares worse. A \<^verbatim>\<open>data:\<close> URL gets no namespace and is
  returned as the path; the load hook then treats it as a platform path, and \<^verbatim>\<open>toFileUrl\<close>
  rejects it because it is not absolute, so nothing is loaded. The hooks are registered
  for a namespace \<^verbatim>\<open>data\<close> that the resolve hook never assigns.
\<close>

theorem load_url_data_example:
  "onResolve example_host []
     (fixed_loader (Inr ''data:text/javascript,1'') (Inl (OtherValue [])))
     \<lparr>path = ''data:text/javascript,1'', importer = ''/src/main.ts'', kind = import_statement\<rparr> 0
   = (Inr (Some \<lparr>result_path = ''data:text/javascript,1'', external = None, namespace = None\<rparr>), 1)
   \<and> load_url example_host ''data:text/javascript,1'' = Inl (ErrorInstance ''Path must be absolute'')
   \<and> load_url example_host ''data:text/javascript,1'' \<noteq> Inr ''data:text/javascript,1''"
  by (simp add: onResolve_def example_host_def fixed_loader_def resolved_path_def namespace_of_def
      load_url_def posix_toFileUrl_def resolution_mode_def startsWith_Cons)

text \<open>
  The same holds for every path library whose \<^verbatim>\<open>toFileUrl\<close> returns file URLs only: a
  resolved URL with a scheme outside the five is never the URL that is loaded.
\<close>

lemma load_url_other_scheme:
  assumes "\<And>p u. toFileUrl h p = Inr u \<Longrightarrow> startsWith u ''file:''"
    and "\<not> startsWith res ''file:''"
    and "\<not> (startsWith res ''http:'' \<or> startsWith res ''https:'' \<or> startsWith res ''npm:'' \<or>
            startsWith res ''jsr:'')"
  shows "resolved_path h res = Inr res \<and> load_url h res \<noteq> Inr res"
  using assms by (auto simp: resolved_path_def load_url_def)

end
